theory Spec2Isabelle
  imports Main
begin

section \<open>JSON values, Items and HTTP responses\<close>

text \<open>
  The values a request body carries for a field and a column stores: \<open>Undefined\<close> is what
  reading a property an object does not have gives in JavaScript, \<open>Null\<close> is JSON's
  \<^verbatim>\<open>null\<close> and SQL's \<^verbatim>\<open>NULL\<close>, \<open>Obj\<close> is a JSON object with its properties in order.
  Booleans, numbers that are not integers and arrays are not modelled.
\<close>

datatype jv = Undefined | Null | Str string | Num int | Obj "(string \<times> jv) list"

definition is_obj :: "jv \<Rightarrow> bool" where
  "is_obj v = (case v of Obj ps \<Rightarrow> True | _ \<Rightarrow> False)"

text \<open>
  An object is the list of its properties, in the order in which the object literal of the
  source lists them. \<open>get_prop\<close> reads a property (the destructuring
  \<^verbatim>\<open>const { name, description } = req.body\<close>); \<open>stringify\<close> is what
  \<^verbatim>\<open>JSON.stringify\<close> keeps of an object: a property whose value is \<^verbatim>\<open>undefined\<close>
  is left out. The request body is the object the JSON middleware parsed; the values inside
  a parsed object are never \<^verbatim>\<open>undefined\<close>, so \<open>stringify\<close> looks at the properties of
  the object itself only.
\<close>

type_synonym obj = "(string \<times> jv) list"

definition get_prop :: "obj \<Rightarrow> string \<Rightarrow> jv" where
  "get_prop ob k = (case map_of ob k of None \<Rightarrow> Undefined | Some v \<Rightarrow> v)"

definition stringify :: "obj \<Rightarrow> obj" where
  "stringify ob = filter (\<lambda>(k, v). v \<noteq> Undefined) ob"

text \<open>
  An Item is a row of the table (\<^verbatim>\<open>items\<close> in the pooled SQL file, \<^verbatim>\<open>android\<close> in
  the hosted one). The fields \<^verbatim>\<open>id\<close> and \<^verbatim>\<open>image\<close> carry a prefix here, since HOL
  has constants of these names. The table is the list of its rows; its columns are the
  eight the two files name.
\<close>

record item =
  item_id :: int
  location :: jv
  contacts :: jv
  item_image :: jv
  call_logs :: jv
  sms :: jv
  name :: jv
  description :: jv

type_synonym table = "item list"

definition item_json :: "item \<Rightarrow> obj" where
  "item_json r =
     [(''id'', Num (item_id r)), (''location'', location r), (''contacts'', contacts r),
      (''image'', item_image r), (''call_logs'', call_logs r), (''sms'', sms r),
      (''name'', name r), (''description'', description r)]"

text \<open>
  The path parameter \<^verbatim>\<open>req.params.id\<close> is a piece of text. The handlers hand it to the
  database, which compares it with the \<^verbatim>\<open>id\<close> column, and the PUT handler of the pooled
  SQL file sends it back as it came. How the database reads a text is not in the source:
  \<open>reads_as\<close> is the identifier the database takes the text for, \<open>None\<close> when it takes
  it for no identifier.
\<close>

record path_id =
  path_text :: string
  reads_as :: "int option"

definition matches :: "path_id \<Rightarrow> item \<Rightarrow> bool" where
  "matches p r = (reads_as p = Some (item_id r))"

datatype body = NoBody | JsonNull | Json obj | JsonList "obj list"

record response =
  status :: nat
  body :: body

text \<open>
  \<^verbatim>\<open>res.status(c).json(x)\<close>, \<^verbatim>\<open>res.json(x)\<close> (status 200) and
  \<^verbatim>\<open>res.status(c).send()\<close>.
\<close>

definition res_json :: "nat \<Rightarrow> obj \<Rightarrow> response" where
  "res_json c ob = \<lparr>status = c, body = Json (stringify ob)\<rparr>"

definition res_json_list :: "nat \<Rightarrow> obj list \<Rightarrow> response" where
  "res_json_list c obs = \<lparr>status = c, body = JsonList (map stringify obs)\<rparr>"

definition res_send :: "nat \<Rightarrow> response" where
  "res_send c = \<lparr>status = c, body = NoBody\<rparr>"

definition internal_server_error :: response where
  "internal_server_error = res_json 500 [(''error'', Str ''Internal server error'')]"

definition item_not_found :: response where
  "item_not_found = res_json 404 [(''error'', Str ''Item not found'')]"

definition status_connected :: "string \<Rightarrow> response" where
  "status_connected now =
     res_json 200 [(''status'', Str ''connected''),
                   (''message'', Str ''Database connection is active''),
                   (''timestamp'', Str now)]"

text \<open>
  The body of the failing status route has \<^verbatim>\<open>error: error.message\<close>; \<open>msg\<close> is that
  value, which is \<open>Undefined\<close> when the error object has no message.
\<close>

definition status_disconnected :: "string \<Rightarrow> jv \<Rightarrow> response" where
  "status_disconnected now msg =
     res_json 500 [(''status'', Str ''disconnected''),
                   (''message'', Str ''Database connection error''),
                   (''error'', msg),
                   (''timestamp'', Str now)]"


definition body_field :: "body \<Rightarrow> string \<Rightarrow> jv" where
  "body_field b k = (case b of Json ob \<Rightarrow> get_prop ob k | _ \<Rightarrow> Undefined)"

section \<open>The database and the handlers' control flow\<close>

text \<open>
  Neither client library nor the database is part of the repository. The database is the
  table together with the outcomes of the calls still to come: the handlers cannot choose
  whether a call fails. A fault \<open>Some msg\<close> is a call that fails with an error object
  whose property \<^verbatim>\<open>message\<close> is \<open>msg\<close> (the handlers read no other property of an
  error), \<open>None\<close> is a call the database answers. \<open>await\<close> takes the outcome of the next
  call off the list; when the list is used up the database answers. A handler that called
  twice would take two outcomes.
\<close>

type_synonym fault = "jv option"

record database =
  rows :: table
  pending :: "fault list"

definition await :: "database \<Rightarrow> fault \<times> database" where
  "await s = (case pending s of [] \<Rightarrow> (None, s) | f # fs \<Rightarrow> (f, s\<lparr>pending := fs\<rparr>))"

text \<open>
  Every handler is one \<^verbatim>\<open>try\<close> block with one \<^verbatim>\<open>catch\<close> block. The attempt either
  throws (\<open>Inl\<close>, with the \<^verbatim>\<open>message\<close> of the error) or responds (\<open>Inr\<close>); the
  \<^verbatim>\<open>catch\<close> block logs and responds. The result of a handler is of the same type:
  \<open>Inl\<close> would be an error that leaves the handler.
\<close>

definition try_catch :: "jv + response \<Rightarrow> (jv \<Rightarrow> response) \<Rightarrow> jv + response" where
  "try_catch attempt catch_block =
     (case attempt of Inl error_message \<Rightarrow> Inr (catch_block error_message) | Inr r \<Rightarrow> Inr r)"

section \<open>The pooled SQL server\<close>

subsection \<open>The database client\<close>

text \<open>
  The model of \<^verbatim>\<open>await pool.query(sql, params)\<close> has one function for each SQL
  statement of the file. A call that fails rejects its promise and leaves the table as it
  was. The identifier of a new row is chosen by the database; the model takes it as the
  argument \<open>new_id\<close>. The columns \<^verbatim>\<open>name\<close> and \<^verbatim>\<open>description\<close> of a new row are
  \<^verbatim>\<open>NULL\<close>. A value is stored as it is handed over; the types of the columns are not in
  the source.

  The client puts each parameter into the text of the statement. The pool of the file is
  created without \<^verbatim>\<open>stringifyObjects\<close>, so the client's escaping makes of
  \<^item> \<^verbatim>\<open>undefined\<close> and \<^verbatim>\<open>null\<close> the text \<^verbatim>\<open>NULL\<close>, and of a string or a number its
    literal (\<open>sql_param\<close>);
  \<^item> an object the list of its properties as \<^verbatim>\<open>`key` = value\<close>, separated by commas, a
    value that is itself an object being turned into the string of its
    \<^verbatim>\<open>toString()\<close> (\<open>nested_param\<close>); an object with no property gives the empty text.
\<close>

datatype 'a outcome = Rejected jv | Resolved 'a

definition sql_param :: "jv \<Rightarrow> jv" where
  "sql_param v = (if v = Undefined then Null else v)"

definition nested_param :: "jv \<Rightarrow> jv" where
  "nested_param v = (if is_obj v then Str ''[object Object]'' else sql_param v)"

definition columns :: "string list" where
  "columns = [''id'', ''location'', ''contacts'', ''image'', ''call_logs'', ''sms'', ''name'',
     ''description'']"

definition column :: "item \<Rightarrow> string \<Rightarrow> jv" where
  "column r k = get_prop (item_json r) k"

text \<open>
  Writing a column of a row; \<open>None\<close> when the statement fails on it: there is no such
  column, or the key column is given something that is not a number.
\<close>

definition set_column :: "string \<Rightarrow> jv \<Rightarrow> item \<Rightarrow> item option" where
  "set_column k v r =
     (if k = ''id'' then (case v of Num n \<Rightarrow> Some (r\<lparr>item_id := n\<rparr>) | _ \<Rightarrow> None)
      else if k = ''location'' then Some (r\<lparr>location := v\<rparr>)
      else if k = ''contacts'' then Some (r\<lparr>contacts := v\<rparr>)
      else if k = ''image'' then Some (r\<lparr>item_image := v\<rparr>)
      else if k = ''call_logs'' then Some (r\<lparr>call_logs := v\<rparr>)
      else if k = ''sms'' then Some (r\<lparr>sms := v\<rparr>)
      else if k = ''name'' then Some (r\<lparr>name := v\<rparr>)
      else if k = ''description'' then Some (r\<lparr>description := v\<rparr>)
      else None)"

text \<open>
  The right-hand side of an assignment in a \<^verbatim>\<open>SET\<close> clause is a literal or, after an
  object was put into the text, the comparison of a column with a literal. A comparison
  with \<^verbatim>\<open>NULL\<close> is \<^verbatim>\<open>NULL\<close>, one of equal values 1, one of different values 0; the
  collation of the columns is not in the source.
\<close>

datatype expr = Literal jv | Equals string jv

definition sql_equal :: "jv \<Rightarrow> jv \<Rightarrow> jv" where
  "sql_equal a b = (if a = Null \<or> b = Null then Null else if a = b then Num 1 else Num 0)"

definition eval_expr :: "item \<Rightarrow> expr \<Rightarrow> jv" where
  "eval_expr r e = (case e of Literal v \<Rightarrow> v | Equals k v \<Rightarrow> sql_equal (column r k) v)"

text \<open>
  What \<^verbatim>\<open>col = ?\<close> becomes once the parameter is in the text: for a value that is no
  object the one assignment to \<open>col\<close>; for an object with the properties
  \<open>(k\<^sub>1, v\<^sub>1), (k\<^sub>2, v\<^sub>2), \<dots>\<close> the text \<^verbatim>\<open>col = `k1` = v1, `k2` = v2, ...\<close>, which assigns
  \<open>col\<close> the comparison of \<open>k\<^sub>1\<close> with \<open>v\<^sub>1\<close> and then the columns \<open>k\<^sub>2, \<dots>\<close>; for the
  empty object \<^verbatim>\<open>col = \<close>, which is no statement (\<open>None\<close>).
\<close>

definition set_clause :: "string \<Rightarrow> jv \<Rightarrow> (string \<times> expr) list option" where
  "set_clause col v =
     (case v of
        Obj [] \<Rightarrow> None
      | Obj ((k, x) # ps) \<Rightarrow>
          Some ((col, Equals k (nested_param x)) #
                map (\<lambda>(k', y). (k', Literal (nested_param y))) ps)
      | _ \<Rightarrow> Some [(col, Literal (sql_param v))])"

definition known_columns :: "(string \<times> expr) list \<Rightarrow> bool" where
  "known_columns as =
     list_all (\<lambda>(k, e). k \<in> set columns \<and>
                 (case e of Equals k' v \<Rightarrow> k' \<in> set columns | Literal v \<Rightarrow> True)) as"

text \<open>The assignments of a \<^verbatim>\<open>SET\<close> clause are carried out from left to right.\<close>

fun assign :: "(string \<times> expr) list \<Rightarrow> item \<Rightarrow> item option" where
  "assign [] r = Some r"
| "assign ((k, e) # as) r =
     (case set_column k (eval_expr r e) r of
        None \<Rightarrow> None
      | Some r' \<Rightarrow> assign as r')"

text \<open>\<^verbatim>\<open>SELECT 1\<close>\<close>

definition query_select_1 :: "database \<Rightarrow> unit outcome \<times> database" where
  "query_select_1 s =
     (case await s of
        (Some msg, s') \<Rightarrow> (Rejected msg, s')
      | (None, s') \<Rightarrow> (Resolved (), s'))"

text \<open>\<^verbatim>\<open>SELECT * FROM items\<close>\<close>

definition query_select_all :: "database \<Rightarrow> item list outcome \<times> database" where
  "query_select_all s =
     (case await s of
        (Some msg, s') \<Rightarrow> (Rejected msg, s')
      | (None, s') \<Rightarrow> (Resolved (rows s'), s'))"

text \<open>\<^verbatim>\<open>SELECT * FROM items WHERE id = ?\<close>\<close>

definition query_select_by_id :: "path_id \<Rightarrow> database \<Rightarrow> item list outcome \<times> database" where
  "query_select_by_id p s =
     (case await s of
        (Some msg, s') \<Rightarrow> (Rejected msg, s')
      | (None, s') \<Rightarrow> (Resolved (filter (matches p) (rows s')), s'))"

text \<open>
  \<^verbatim>\<open>INSERT INTO items (location, contacts, image, call_logs, sms) VALUES (?, ?, ?, ?, ?)\<close>;
  the result is \<^verbatim>\<open>insertId\<close>. An object with one property in the place of a value is the
  comparison of a column of the row that is being made with a literal; the model takes the
  columns of that row to be \<^verbatim>\<open>NULL\<close> still, so the comparison is \<^verbatim>\<open>NULL\<close>. Any other
  object makes the statement fail (no value, or more values than columns).
\<close>

definition insert_value :: "jv \<Rightarrow> jv option" where
  "insert_value v =
     (case v of
        Obj [(k, x)] \<Rightarrow> (if k \<in> set columns then Some Null else None)
      | Obj ps \<Rightarrow> None
      | _ \<Rightarrow> Some (sql_param v))"

definition query_insert ::
  "int \<Rightarrow> jv \<Rightarrow> jv \<Rightarrow> jv \<Rightarrow> jv \<Rightarrow> jv \<Rightarrow> database \<Rightarrow> int outcome \<times> database" where
  "query_insert new_id l c i cl s db =
     (case await db of
        (Some msg, db') \<Rightarrow> (Rejected msg, db')
      | (None, db') \<Rightarrow>
          (case (insert_value l, insert_value c, insert_value i, insert_value cl,
                 insert_value s) of
             (Some l', Some c', Some i', Some cl', Some s') \<Rightarrow>
               (Resolved new_id,
                db'\<lparr>rows := rows db' @
                   [\<lparr>item_id = new_id, location = l', contacts = c', item_image = i',
                     call_logs = cl', sms = s', name = Null, description = Null\<rparr>]\<rparr>)
           | _ \<Rightarrow> (Rejected (Str ''ER_PARSE_ERROR''), db')))"

text \<open>
  \<^verbatim>\<open>UPDATE items SET name = ?, description = ? WHERE id = ?\<close>; the result is
  \<^verbatim>\<open>affectedRows\<close>, the number of rows the \<^verbatim>\<open>WHERE\<close> clause matches. The statement
  fails, and changes nothing, when its text is no statement, when it names a column the
  table does not have, when an assignment fails on a matching row, or when it assigns the key
  column and two rows would then have the same key.
\<close>

definition query_update ::
  "jv \<Rightarrow> jv \<Rightarrow> path_id \<Rightarrow> database \<Rightarrow> nat outcome \<times> database" where
  "query_update n d p s =
     (case await s of
        (Some msg, s') \<Rightarrow> (Rejected msg, s')
      | (None, s') \<Rightarrow>
          (case (set_clause ''name'' n, set_clause ''description'' d) of
             (Some as1, Some as2) \<Rightarrow>
               (let as = as1 @ as2;
                    after = map (\<lambda>r. if matches p r
                                      then (case assign as r of Some r' \<Rightarrow> r' | None \<Rightarrow> r)
                                      else r) (rows s')
                in if \<not> known_columns as then (Rejected (Str ''ER_BAD_FIELD_ERROR''), s')
                   else if \<exists>r \<in> set (filter (matches p) (rows s')). assign as r = None
                   then (Rejected (Str ''ER_TRUNCATED_WRONG_VALUE''), s')
                   else if ''id'' \<in> fst ` set as \<and> \<not> distinct (map item_id after)
                   then (Rejected (Str ''ER_DUP_ENTRY''), s')
                   else (Resolved (length (filter (matches p) (rows s'))),
                         s'\<lparr>rows := after\<rparr>))
           | _ \<Rightarrow> (Rejected (Str ''ER_PARSE_ERROR''), s')))"

text \<open>\<^verbatim>\<open>DELETE FROM items WHERE id = ?\<close>; the result is \<^verbatim>\<open>affectedRows\<close>.\<close>

definition query_delete :: "path_id \<Rightarrow> database \<Rightarrow> nat outcome \<times> database" where
  "query_delete p s =
     (case await s of
        (Some msg, s') \<Rightarrow> (Rejected msg, s')
      | (None, s') \<Rightarrow>
          (Resolved (length (filter (matches p) (rows s'))),
           s'\<lparr>rows := filter (\<lambda>r. \<not> matches p r) (rows s')\<rparr>))"

subsection \<open>The route handlers\<close>

text \<open>
  Each handler awaits one query inside its \<^verbatim>\<open>try\<close> block; a rejected promise throws
  there. A handler returns what it did with the request and the database after it.
  \<open>now\<close> is the text of \<^verbatim>\<open>new Date().toISOString()\<close>. The POST handler builds its
  response from \<^verbatim>\<open>insertId\<close> and the values of the request body, the PUT handler from
  the text of the path parameter and the values of the request body; neither reads the row
  back.
\<close>

definition sql_get_status :: "string \<Rightarrow> database \<Rightarrow> (jv + response) \<times> database" where
  "sql_get_status now s =
     (case query_select_1 s of
        (q, s') \<Rightarrow>
          (try_catch
             (case q of
                Rejected error_message \<Rightarrow> Inl error_message
              | Resolved u \<Rightarrow> Inr (status_connected now))
             (\<lambda>error_message. status_disconnected now error_message), s'))"

definition sql_get_items :: "database \<Rightarrow> (jv + response) \<times> database" where
  "sql_get_items s =
     (case query_select_all s of
        (q, s') \<Rightarrow>
          (try_catch
             (case q of
                Rejected error_message \<Rightarrow> Inl error_message
              | Resolved found \<Rightarrow> Inr (res_json_list 200 (map item_json found)))
             (\<lambda>error_message. internal_server_error), s'))"

definition sql_post_item :: "int \<Rightarrow> obj \<Rightarrow> database \<Rightarrow> (jv + response) \<times> database" where
  "sql_post_item new_id req_body s =
     (let l = get_prop req_body ''location''; c = get_prop req_body ''contacts'';
          i = get_prop req_body ''image''; cl = get_prop req_body ''call_logs'';
          sm = get_prop req_body ''sms''
      in case query_insert new_id l c i cl sm s of
           (q, s') \<Rightarrow>
             (try_catch
                (case q of
                   Rejected error_message \<Rightarrow> Inl error_message
                 | Resolved insertId \<Rightarrow>
                     Inr (res_json 201
                            [(''id'', Num insertId), (''location'', l), (''contacts'', c),
                             (''image'', i), (''call_logs'', cl), (''sms'', sm)]))
                (\<lambda>error_message. internal_server_error), s'))"

definition sql_get_item :: "path_id \<Rightarrow> database \<Rightarrow> (jv + response) \<times> database" where
  "sql_get_item p s =
     (case query_select_by_id p s of
        (q, s') \<Rightarrow>
          (try_catch
             (case q of
                Rejected error_message \<Rightarrow> Inl error_message
              | Resolved found \<Rightarrow>
                  (if length found = 0 then Inr item_not_found
                   else Inr (res_json 200 (item_json (hd found)))))
             (\<lambda>error_message. internal_server_error), s'))"

definition sql_put_item :: "path_id \<Rightarrow> obj \<Rightarrow> database \<Rightarrow> (jv + response) \<times> database" where
  "sql_put_item p req_body s =
     (let n = get_prop req_body ''name''; d = get_prop req_body ''description''
      in case query_update n d p s of
           (q, s') \<Rightarrow>
             (try_catch
                (case q of
                   Rejected error_message \<Rightarrow> Inl error_message
                 | Resolved affectedRows \<Rightarrow>
                     (if affectedRows = 0 then Inr item_not_found
                      else Inr (res_json 200
                                  [(''id'', Str (path_text p)), (''name'', n),
                                   (''description'', d)])))
                (\<lambda>error_message. internal_server_error), s'))"

definition sql_delete_item :: "path_id \<Rightarrow> database \<Rightarrow> (jv + response) \<times> database" where
  "sql_delete_item p s =
     (case query_delete p s of
        (q, s') \<Rightarrow>
          (try_catch
             (case q of
                Rejected error_message \<Rightarrow> Inl error_message
              | Resolved affectedRows \<Rightarrow>
                  (if affectedRows = 0 then Inr item_not_found else Inr (res_send 204)))
             (\<lambda>error_message. internal_server_error), s'))"

section \<open>The hosted-client server\<close>

subsection \<open>The database client\<close>

text \<open>
  The hosted client does not reject: an awaited query resolves to an object with the fields
  \<^verbatim>\<open>data\<close> and \<^verbatim>\<open>error\<close>, of which one is \<^verbatim>\<open>null\<close>; \<open>error\<close> is represented by the
  \<^verbatim>\<open>message\<close> of the error object. The model has one function for each chain of builder
  calls of the file. The file hands \<^verbatim>\<open>createClient\<close> its options where the key is
  expected; a call that the database answers presupposes a service that accepts this.
  What the model takes from the client library and its REST service:
  \<^item> the payload of \<^verbatim>\<open>insert\<close> and \<^verbatim>\<open>update\<close> travels as JSON, so a property whose
    value is \<^verbatim>\<open>undefined\<close> is not sent (\<open>stringify\<close>); an insert gives a column that is
    not sent the value \<^verbatim>\<open>NULL\<close>, an update leaves it as it is, and an update whose payload
    has no column changes and returns no row; a value that is sent is stored as it is;
  \<^item> a filter \<^verbatim>\<open>.eq('id', text)\<close> whose text the service takes for no identifier is an
    error;
  \<^item> \<^verbatim>\<open>.select()\<close> after a change returns the rows changed;
  \<^item> \<^verbatim>\<open>.single()\<close> asks for exactly one row: with one row \<^verbatim>\<open>data\<close> is that row, and
    with none or several \<^verbatim>\<open>data\<close> is \<^verbatim>\<open>null\<close>, \<^verbatim>\<open>error\<close> is set and the change of
    the same call is undone;
  \<^item> \<^verbatim>\<open>.delete().eq(...)\<close> with no row to delete is no error.
\<close>

record 'a reply =
  data :: "'a option"
  error :: "jv option"

definition failed :: "jv \<Rightarrow> 'a reply" where
  "failed msg = \<lparr>data = None, error = Some msg\<rparr>"

definition succeeded :: "'a \<Rightarrow> 'a reply" where
  "succeeded x = \<lparr>data = Some x, error = None\<rparr>"

definition single :: "item list \<Rightarrow> item reply" where
  "single found =
     (case found of
        [r] \<Rightarrow> succeeded r
      | _ \<Rightarrow> failed (Str ''JSON object requested, multiple (or no) rows returned''))"

definition invalid_filter :: jv where
  "invalid_filter = Str ''invalid input syntax''"

text \<open>\<^verbatim>\<open>.from('android').select('count').limit(1)\<close>\<close>

definition from_select_count :: "database \<Rightarrow> unit reply \<times> database" where
  "from_select_count s =
     (case await s of
        (Some msg, s') \<Rightarrow> (failed msg, s')
      | (None, s') \<Rightarrow> (succeeded (), s'))"

text \<open>\<^verbatim>\<open>.from('android').select('*')\<close>\<close>

definition from_select_all :: "database \<Rightarrow> item list reply \<times> database" where
  "from_select_all s =
     (case await s of
        (Some msg, s') \<Rightarrow> (failed msg, s')
      | (None, s') \<Rightarrow> (succeeded (rows s'), s'))"

text \<open>\<^verbatim>\<open>.from('android').select('*').eq('id', id).single()\<close>\<close>

definition from_select_eq_single :: "path_id \<Rightarrow> database \<Rightarrow> item reply \<times> database" where
  "from_select_eq_single p s =
     (case await s of
        (Some msg, s') \<Rightarrow> (failed msg, s')
      | (None, s') \<Rightarrow>
          (if reads_as p = None then (failed invalid_filter, s')
           else (single (filter (matches p) (rows s')), s')))"

text \<open>The value a new row gets for a column, from the payload as sent.\<close>

definition sent_or_null :: "obj \<Rightarrow> string \<Rightarrow> jv" where
  "sent_or_null payload k = (case map_of payload k of None \<Rightarrow> Null | Some v \<Rightarrow> v)"

text \<open>\<^verbatim>\<open>.from('android').insert([payload]).select().single()\<close>\<close>

definition from_insert_select_single ::
  "int \<Rightarrow> obj \<Rightarrow> database \<Rightarrow> item reply \<times> database" where
  "from_insert_select_single new_id payload s =
     (case await s of
        (Some msg, s') \<Rightarrow> (failed msg, s')
      | (None, s') \<Rightarrow>
          (let sent = stringify payload;
               r = \<lparr>item_id = new_id,
                    location = sent_or_null sent ''location'',
                    contacts = sent_or_null sent ''contacts'',
                    item_image = sent_or_null sent ''image'',
                    call_logs = sent_or_null sent ''call_logs'',
                    sms = sent_or_null sent ''sms'',
                    name = Null, description = Null\<rparr>
           in (single [r], s'\<lparr>rows := rows s' @ [r]\<rparr>)))"

text \<open>What an update with the payload as sent makes of a row.\<close>

definition patch :: "obj \<Rightarrow> item \<Rightarrow> item" where
  "patch sent r =
     r\<lparr>name := (case map_of sent ''name'' of None \<Rightarrow> name r | Some v \<Rightarrow> v),
       description :=
         (case map_of sent ''description'' of None \<Rightarrow> description r | Some v \<Rightarrow> v)\<rparr>"

text \<open>\<^verbatim>\<open>.from('android').update(payload).eq('id', id).select().single()\<close>\<close>

definition from_update_eq_select_single ::
  "obj \<Rightarrow> path_id \<Rightarrow> database \<Rightarrow> item reply \<times> database" where
  "from_update_eq_select_single payload p s =
     (case await s of
        (Some msg, s') \<Rightarrow> (failed msg, s')
      | (None, s') \<Rightarrow>
          (if reads_as p = None then (failed invalid_filter, s')
           else
             (let sent = stringify payload;
                  changed = (if sent = [] then []
                             else map (patch sent) (filter (matches p) (rows s')))
              in if length changed = 1
                 then (single changed,
                       s'\<lparr>rows := map (\<lambda>r. if matches p r then patch sent r else r)
                                      (rows s')\<rparr>)
                 else (single changed, s'))))"

text \<open>\<^verbatim>\<open>.from('android').delete().eq('id', id)\<close>; the handler reads \<^verbatim>\<open>error\<close> only.\<close>

definition from_delete_eq :: "path_id \<Rightarrow> database \<Rightarrow> unit reply \<times> database" where
  "from_delete_eq p s =
     (case await s of
        (Some msg, s') \<Rightarrow> (failed msg, s')
      | (None, s') \<Rightarrow>
          (if reads_as p = None then (failed invalid_filter, s')
           else (\<lparr>data = None, error = None\<rparr>,
                 s'\<lparr>rows := filter (\<lambda>r. \<not> matches p r) (rows s')\<rparr>)))"

subsection \<open>The route handlers\<close>

text \<open>
  In each handler \<^verbatim>\<open>if (error) throw error\<close> throws inside the \<^verbatim>\<open>try\<close> block: the
  branch \<open>Some\<close> of \<open>error\<close>. The test \<^verbatim>\<open>if (!data)\<close> that follows it in the GET and
  PUT handlers of one Item is the branch \<open>None\<close> of \<open>data\<close>. The list and POST handlers
  have no such test and pass \<^verbatim>\<open>data\<close> to \<^verbatim>\<open>res.json\<close> as it is, \<^verbatim>\<open>null\<close> included.
  The POST and PUT handlers answer with the row the client returns.
\<close>

definition hosted_get_status :: "string \<Rightarrow> database \<Rightarrow> (jv + response) \<times> database" where
  "hosted_get_status now s =
     (case from_select_count s of
        (r, s') \<Rightarrow>
          (try_catch
             (case error r of
                Some error_message \<Rightarrow> Inl error_message
              | None \<Rightarrow> Inr (status_connected now))
             (\<lambda>error_message. status_disconnected now error_message), s'))"

definition hosted_get_items :: "database \<Rightarrow> (jv + response) \<times> database" where
  "hosted_get_items s =
     (case from_select_all s of
        (r, s') \<Rightarrow>
          (try_catch
             (case error r of
                Some error_message \<Rightarrow> Inl error_message
              | None \<Rightarrow>
                  (case data r of
                     None \<Rightarrow> Inr \<lparr>status = 200, body = JsonNull\<rparr>
                   | Some found \<Rightarrow> Inr (res_json_list 200 (map item_json found))))
             (\<lambda>error_message. internal_server_error), s'))"

definition hosted_post_item ::
  "int \<Rightarrow> obj \<Rightarrow> database \<Rightarrow> (jv + response) \<times> database" where
  "hosted_post_item new_id req_body s =
     (let l = get_prop req_body ''location''; c = get_prop req_body ''contacts'';
          i = get_prop req_body ''image''; cl = get_prop req_body ''call_logs'';
          sm = get_prop req_body ''sms''
      in case from_insert_select_single new_id
                [(''location'', l), (''contacts'', c), (''image'', i),
                 (''call_logs'', cl), (''sms'', sm)] s of
           (r, s') \<Rightarrow>
             (try_catch
                (case error r of
                   Some error_message \<Rightarrow> Inl error_message
                 | None \<Rightarrow>
                     (case data r of
                        None \<Rightarrow> Inr \<lparr>status = 201, body = JsonNull\<rparr>
                      | Some row \<Rightarrow> Inr (res_json 201 (item_json row))))
                (\<lambda>error_message. internal_server_error), s'))"

definition hosted_get_item :: "path_id \<Rightarrow> database \<Rightarrow> (jv + response) \<times> database" where
  "hosted_get_item p s =
     (case from_select_eq_single p s of
        (r, s') \<Rightarrow>
          (try_catch
             (case error r of
                Some error_message \<Rightarrow> Inl error_message
              | None \<Rightarrow>
                  (case data r of
                     None \<Rightarrow> Inr item_not_found
                   | Some row \<Rightarrow> Inr (res_json 200 (item_json row))))
             (\<lambda>error_message. internal_server_error), s'))"

definition hosted_put_item ::
  "path_id \<Rightarrow> obj \<Rightarrow> database \<Rightarrow> (jv + response) \<times> database" where
  "hosted_put_item p req_body s =
     (let n = get_prop req_body ''name''; d = get_prop req_body ''description''
      in case from_update_eq_select_single [(''name'', n), (''description'', d)] p s of
           (r, s') \<Rightarrow>
             (try_catch
                (case error r of
                   Some error_message \<Rightarrow> Inl error_message
                 | None \<Rightarrow>
                     (case data r of
                        None \<Rightarrow> Inr item_not_found
                      | Some row \<Rightarrow> Inr (res_json 200 (item_json row))))
                (\<lambda>error_message. internal_server_error), s'))"

definition hosted_delete_item :: "path_id \<Rightarrow> database \<Rightarrow> (jv + response) \<times> database" where
  "hosted_delete_item p s =
     (case from_delete_eq p s of
        (r, s') \<Rightarrow>
          (try_catch
             (case error r of
                Some error_message \<Rightarrow> Inl error_message
              | None \<Rightarrow> Inr (res_send 204))
             (\<lambda>error_message. internal_server_error), s'))"

section \<open>Health Monitor\<close>

text \<open>
  Both server files keep two module-level variables, \<^verbatim>\<open>isConnected\<close> (initially
  \<^verbatim>\<open>false\<close>) and \<^verbatim>\<open>connectionAttempts\<close> (initially \<^verbatim>\<open>0\<close>), and the constant
  \<^verbatim>\<open>MAX_RETRY_ATTEMPTS = 5\<close>. The function \<^verbatim>\<open>checkConnection\<close> awaits one probe query
  and only afterwards reads and writes the two variables, in one synchronous block: either
  the rest of the \<^verbatim>\<open>try\<close> body (probe succeeded) or the \<^verbatim>\<open>catch\<close> block (probe failed).
  Its effect on the monitor state is therefore a function of the state and of the outcome of
  the probe. The outcome is \<open>None\<close> for a probe that succeeded and \<open>Some msg\<close> for a probe
  that failed with an error whose message is \<open>msg\<close>. The two files differ only in how the
  probe is issued (\<^verbatim>\<open>pool.query('SELECT 1')\<close> against
  \<^verbatim>\<open>supabase.from('android').select('count').limit(1)\<close> followed by
  \<^verbatim>\<open>if (error) throw error\<close>); the code after the probe is the same, so one definition
  covers both. Console output is not part of the model.
\<close>

record monitor =
  isConnected :: bool
  connectionAttempts :: nat

definition MAX_RETRY_ATTEMPTS :: nat where
  "MAX_RETRY_ATTEMPTS = 5"

text \<open>
  A process is either still running, with its monitor state, or it has called
  \<^verbatim>\<open>process.exit\<close> with the given exit code.
\<close>

datatype process = Running monitor | Exited nat

definition initial :: monitor where
  "initial = \<lparr>isConnected = False, connectionAttempts = 0\<rparr>"

definition checkConnection :: "string option \<Rightarrow> monitor \<Rightarrow> process" where
  "checkConnection probe m =
     (case probe of
        None \<Rightarrow>
          Running (if \<not> isConnected m
                   then m\<lparr>isConnected := True, connectionAttempts := 0\<rparr>
                   else m)
      | Some msg \<Rightarrow>
          (let m1 = m\<lparr>connectionAttempts := connectionAttempts m + 1\<rparr>;
               m2 = (if isConnected m1 then m1\<lparr>isConnected := False\<rparr> else m1)
           in if connectionAttempts m2 \<ge> MAX_RETRY_ATTEMPTS then Exited 1
              else Running m2))"

text \<open>
  The timer and the initial call invoke \<^verbatim>\<open>checkConnection\<close> again and again; the list
  holds the outcomes of the successive probes, in the order in which they complete. Once the
  process has exited nothing runs any more.
\<close>

fun run :: "process \<Rightarrow> string option list \<Rightarrow> process" where
  "run p [] = p"
| "run (Exited c) (x # xs) = Exited c"
| "run (Running m) (x # xs) = run (checkConnection x m) xs"

section \<open>Observations and example data\<close>

text \<open>
  The five fields a client supplies when it creates an Item, as a response body shows them.
\<close>

definition five_fields :: "body \<Rightarrow> jv \<times> jv \<times> jv \<times> jv \<times> jv" where
  "five_fields b =
     (body_field b ''location'', body_field b ''contacts'', body_field b ''image'',
      body_field b ''call_logs'', body_field b ''sms'')"

text \<open>
  What an update addressed to the path parameter \<open>p\<close> may do to a stored row \<open>r\<close>: the
  row after it, \<open>r'\<close>, differs from \<open>r\<close> in \<^verbatim>\<open>name\<close> and \<^verbatim>\<open>description\<close> at most, and
  not at all when \<open>p\<close> does not match \<open>r\<close>.
\<close>

definition frame :: "path_id \<Rightarrow> item \<Rightarrow> item \<Rightarrow> bool" where
  "frame p r r' =
     (r' = r\<lparr>name := name r', description := description r'\<rparr> \<and>
      (\<not> matches p r \<longrightarrow> r' = r))"

definition example_item :: item where
  "example_item =
     \<lparr>item_id = 1, location = Str ''L'', contacts = Str ''C'', item_image = Str ''I'',
      call_logs = Str ''CL'', sms = Str ''S'', name = Str ''old'', description = Null\<rparr>"

definition other_item :: item where
  "other_item =
     \<lparr>item_id = 2, location = Null, contacts = Str ''c2'', item_image = Null,
      call_logs = Null, sms = Null, name = Str ''n2'', description = Str ''d2''\<rparr>"

definition example_body :: obj where
  "example_body =
     [(''location'', Str ''L''), (''contacts'', Str ''C''), (''image'', Str ''I''),
      (''call_logs'', Str ''CL''), (''sms'', Str ''S'')]"

text \<open>The path parameters of \<^verbatim>\<open>/api/items/1\<close>, \<^verbatim>\<open>/api/items/2\<close> and \<^verbatim>\<open>/api/items/7\<close>.\<close>

definition path_1 :: path_id where
  "path_1 = \<lparr>path_text = ''1'', reads_as = Some 1\<rparr>"

definition path_2 :: path_id where
  "path_2 = \<lparr>path_text = ''2'', reads_as = Some 2\<rparr>"

definition path_7 :: path_id where
  "path_7 = \<lparr>path_text = ''7'', reads_as = Some 7\<rparr>"

text \<open>
  A request body whose \<^verbatim>\<open>name\<close> is an object:
  \<^verbatim>\<open>{"name": {"name": "x", "location": "pwned"}, "description": "D"}\<close>.
\<close>

definition object_body :: obj where
  "object_body =
     [(''name'', Obj [(''name'', Str ''x''), (''location'', Str ''pwned'')]),
      (''description'', Str ''D'')]"

section \<open>Properties of the Health Monitor\<close>

lemma run_Exited: "run (Exited c) xs = Exited c"
  by (cases xs) simp_all

lemma run_append: "run p (xs @ ys) = run (run p xs) ys"
  by (induction p xs rule: run.induct) (simp_all add: run_Exited)

lemma run_snoc_Running:
  assumes "run p (xs @ [x]) = Running m"
  obtains m0 where "run p xs = Running m0" and "checkConnection x m0 = Running m"
proof (cases "run p xs")
  case (Running m0)
  with assms have "checkConnection x m0 = Running m"
    by (simp add: run_append)
  with Running show ?thesis
    using that by blast
next
  case (Exited c)
  with assms show ?thesis
    by (simp add: run_append)
qed

text \<open>One invocation keeps the invariant: a connected monitor has counter zero.\<close>

lemma checkConnection_invariant:
  assumes "isConnected m \<longrightarrow> connectionAttempts m = 0"
    and "checkConnection x m = Running m'"
  shows "isConnected m' \<longrightarrow> connectionAttempts m' = 0"
  using assms
  by (cases x) (auto simp: checkConnection_def Let_def split: if_splits)

lemma run_invariant:
  assumes "isConnected m \<longrightarrow> connectionAttempts m = 0"
    and "run (Running m) xs = Running m'"
  shows "isConnected m' \<longrightarrow> connectionAttempts m' = 0"
  using assms
proof (induction xs arbitrary: m' rule: rev_induct)
  case Nil
  then show ?case by simp
next
  case (snoc x xs)
  from snoc.prems(2) obtain m0
    where m0: "run (Running m) xs = Running m0" "checkConnection x m0 = Running m'"
    by (rule run_snoc_Running)
  from snoc.IH [OF snoc.prems(1) m0(1)] m0(2) show ?case
    by (rule checkConnection_invariant)
qed

lemma checkConnection_success:
  assumes "isConnected m \<longrightarrow> connectionAttempts m = 0"
  shows "checkConnection None m = Running \<lparr>isConnected = True, connectionAttempts = 0\<rparr>"
  using assms by (cases m) (auto simp: checkConnection_def)

lemma success_then_failures:
  assumes "k < MAX_RETRY_ATTEMPTS" and "length es = k"
  shows "run (Running \<lparr>isConnected = c, connectionAttempts = 0\<rparr>) (map Some es) =
         Running \<lparr>isConnected = (if k = 0 then c else False), connectionAttempts = k\<rparr>"
  using assms
proof (induction es arbitrary: k rule: rev_induct)
  case Nil
  then show ?case by simp
next
  case (snoc e es)
  then obtain j where j: "k = Suc j" "length es = j" "j < MAX_RETRY_ATTEMPTS"
    by (cases k) auto
  from snoc.IH [OF j(3) j(2)] snoc.prems(1) j(1) show ?case
    by (simp add: run_append checkConnection_def Let_def MAX_RETRY_ATTEMPTS_def)
qed

lemma checkConnection_failure:
  "checkConnection (Some e) m =
     (if Suc (connectionAttempts m) \<ge> MAX_RETRY_ATTEMPTS then Exited 1
      else Running \<lparr>isConnected = False, connectionAttempts = Suc (connectionAttempts m)\<rparr>)"
  by (cases m) (simp add: checkConnection_def Let_def)

lemma failures_count:
  "run (Running m) (map Some es) = Running m' \<Longrightarrow>
     connectionAttempts m' = connectionAttempts m + length es"
proof (induction es arbitrary: m)
  case Nil
  then show ?case by simp
next
  case (Cons e es)
  show ?case
  proof (cases "Suc (connectionAttempts m) \<ge> MAX_RETRY_ATTEMPTS")
    case True
    with Cons.prems show ?thesis
      by (simp add: checkConnection_failure run_Exited)
  next
    case False
    with Cons.prems Cons.IH [of "\<lparr>isConnected = False,
      connectionAttempts = Suc (connectionAttempts m)\<rparr>"] show ?thesis
      by (simp add: checkConnection_failure)
  qed
qed

lemma failures_exit_code:
  "run (Running m) (map Some es) = Exited c \<Longrightarrow> c = 1"
proof (induction es arbitrary: m)
  case Nil
  then show ?case by simp
next
  case (Cons e es)
  then show ?case
    by (auto simp: checkConnection_failure run_Exited split: if_splits)
qed

lemma failures_bound:
  assumes "run (Running m) (map Some (es @ [e])) = Running m'"
  shows "connectionAttempts m' < MAX_RETRY_ATTEMPTS"
proof -
  from assms have "run (Running m) (map Some es @ [Some e]) = Running m'"
    by simp
  then obtain m0 where "checkConnection (Some e) m0 = Running m'"
    by (rule run_snoc_Running)
  then show ?thesis
    by (auto simp: checkConnection_failure split: if_splits)
qed

lemma failures_exit:
  assumes "length es = MAX_RETRY_ATTEMPTS"
  shows "run (Running m) (map Some es) = Exited 1"
proof (cases "run (Running m) (map Some es)")
  case (Running m')
  from assms obtain es' e where es: "es = es' @ [e]"
    by (cases es rule: rev_cases) (auto simp: MAX_RETRY_ATTEMPTS_def)
  from Running have "connectionAttempts m' = connectionAttempts m + length es"
    by (rule failures_count)
  moreover from Running es have "connectionAttempts m' < MAX_RETRY_ATTEMPTS"
    using failures_bound by blast
  ultimately show ?thesis
    using assms by simp
next
  case (Exited c)
  then show ?thesis
    using failures_exit_code by blast
qed

lemma run_after_success:
  assumes "run (Running initial) (ps @ [None]) = Running m"
  shows "m = \<lparr>isConnected = True, connectionAttempts = 0\<rparr>"
proof -
  from assms obtain m0
    where m0: "run (Running initial) ps = Running m0" "checkConnection None m0 = Running m"
    by (rule run_snoc_Running)
  have "isConnected initial \<longrightarrow> connectionAttempts initial = 0"
    by (simp add: initial_def)
  from this m0(1) have "isConnected m0 \<longrightarrow> connectionAttempts m0 = 0"
    by (rule run_invariant)
  then have "checkConnection None m0 = Running \<lparr>isConnected = True, connectionAttempts = 0\<rparr>"
    by (rule checkConnection_success)
  with m0(2) show ?thesis by simp
qed

text \<open>
  C2. Take any sequence \<open>ps\<close> of probe outcomes after which the process still runs.
  If five failed probes follow, the process has exited with code 1 after them. If \<open>ps\<close> is
  empty or ends with a successful probe, so that the five failures are a whole run of
  consecutive failures, the process still runs after each of the first four, with the
  counter at the number of failures so far: it exits at the fifth failure. And after any
  successful probe the counter is zero, whatever came before.
\<close>

theorem monitor_exit_at_fifth_failure:
  assumes "run (Running initial) ps = Running m"
  shows "(length es = 5 \<longrightarrow> run (Running initial) (ps @ map Some es) = Exited 1) \<and>
         ((ps = [] \<or> last ps = None) \<and> length es < 5 \<longrightarrow>
            run (Running initial) (ps @ map Some es) =
              Running \<lparr>isConnected = (if es = [] then isConnected m else False),
                       connectionAttempts = length es\<rparr>) \<and>
         (ps \<noteq> [] \<and> last ps = None \<longrightarrow> connectionAttempts m = 0)"
proof (intro conjI impI)
  assume "length es = 5"
  with assms show "run (Running initial) (ps @ map Some es) = Exited 1"
    by (simp add: run_append failures_exit MAX_RETRY_ATTEMPTS_def)
next
  assume a: "(ps = [] \<or> last ps = None) \<and> length es < 5"
  have fresh: "m = \<lparr>isConnected = isConnected m, connectionAttempts = 0\<rparr>"
  proof (cases "ps = []")
    case True
    with assms show ?thesis by (auto simp: initial_def)
  next
    case False
    with a obtain qs where "ps = qs @ [None]"
      by (cases ps rule: rev_cases) auto
    with assms have "m = \<lparr>isConnected = True, connectionAttempts = 0\<rparr>"
      using run_after_success by blast
    then show ?thesis by simp
  qed
  from a have "length es < MAX_RETRY_ATTEMPTS"
    by (simp add: MAX_RETRY_ATTEMPTS_def)
  then have "run (Running \<lparr>isConnected = isConnected m, connectionAttempts = 0\<rparr>)
               (map Some es) =
             Running \<lparr>isConnected = (if length es = 0 then isConnected m else False),
                      connectionAttempts = length es\<rparr>"
    by (rule success_then_failures) simp
  with fresh assms show "run (Running initial) (ps @ map Some es) =
           Running \<lparr>isConnected = (if es = [] then isConnected m else False),
                    connectionAttempts = length es\<rparr>"
    by (simp add: run_append)
next
  assume "ps \<noteq> [] \<and> last ps = None"
  then obtain qs where "ps = qs @ [None]"
    by (cases ps rule: rev_cases) auto
  with assms have "m = \<lparr>isConnected = True, connectionAttempts = 0\<rparr>"
    using run_after_success by blast
  then show "connectionAttempts m = 0" by simp
qed

theorem monitor_exit_at_fifth_failure_witness:
  "run (Running initial) [Some ''down'', None] =
     Running \<lparr>isConnected = True, connectionAttempts = 0\<rparr> \<and>
   run (Running initial)
     ([Some ''down'', None] @ map Some [''e1'', ''e2'', ''e3'', ''e4'', ''e5'']) = Exited 1 \<and>
   run (Running initial)
     ([Some ''down'', None] @ map Some [''e1'', ''e2'', ''e3'', ''e4'']) =
     Running \<lparr>isConnected = False, connectionAttempts = 4\<rparr>"
proof -
  have r: "run (Running initial) [Some ''down'', None] =
             Running \<lparr>isConnected = True, connectionAttempts = 0\<rparr>"
    by (simp add: initial_def checkConnection_def MAX_RETRY_ATTEMPTS_def)
  from monitor_exit_at_fifth_failure [OF r, of "[''e1'', ''e2'', ''e3'', ''e4'', ''e5'']"]
    monitor_exit_at_fifth_failure [OF r, of "[''e1'', ''e2'', ''e3'', ''e4'']"] r
  show ?thesis by simp
qed

text \<open>
  C9. In every state the monitor reaches from its initial state, \<^verbatim>\<open>isConnected\<close>
  implies that \<^verbatim>\<open>connectionAttempts\<close> is zero. Hence a successful probe in any such state
  leaves the counter at zero, although only the branch for a monitor that is not yet
  connected assigns zero.
\<close>

theorem monitor_connected_counter_zero:
  assumes "run (Running initial) ps = Running m"
  shows "(isConnected m \<longrightarrow> connectionAttempts m = 0) \<and>
         checkConnection None m = Running \<lparr>isConnected = True, connectionAttempts = 0\<rparr>"
proof -
  have "isConnected initial \<longrightarrow> connectionAttempts initial = 0"
    by (simp add: initial_def)
  from this assms have inv: "isConnected m \<longrightarrow> connectionAttempts m = 0"
    by (rule run_invariant)
  from inv checkConnection_success [OF inv] show ?thesis
    by simp
qed

theorem monitor_connected_counter_zero_witness:
  "run (Running initial) [None, Some ''down'', None, None] =
     Running \<lparr>isConnected = True, connectionAttempts = 0\<rparr> \<and>
   checkConnection None \<lparr>isConnected = True, connectionAttempts = 0\<rparr> =
     Running \<lparr>isConnected = True, connectionAttempts = 0\<rparr>"
proof -
  have r: "run (Running initial) [None, Some ''down'', None, None] =
             Running \<lparr>isConnected = True, connectionAttempts = 0\<rparr>"
    by (simp add: initial_def checkConnection_def MAX_RETRY_ATTEMPTS_def)
  from monitor_connected_counter_zero [OF r] r show ?thesis
    by simp
qed

section \<open>Properties of the route handlers\<close>

text \<open>
  The handlers of the pooled SQL server carry the prefix \<open>sql\<close>, those of the hosted-client
  server the prefix \<open>hosted\<close>. A request made while the database answers finds \<open>None\<close>
  at the head of the pending outcomes; what follows it in the list is arbitrary.
\<close>

lemmas response_defs =
  res_json_def res_json_list_def res_send_def internal_server_error_def item_not_found_def
  status_connected_def status_disconnected_def stringify_def

lemmas sql_defs =
  query_select_1_def query_select_all_def query_select_by_id_def query_insert_def
  query_delete_def sql_get_status_def sql_get_items_def sql_post_item_def
  sql_get_item_def sql_put_item_def sql_delete_item_def sql_param_def insert_value_def

lemmas hosted_defs =
  failed_def succeeded_def single_def from_select_count_def from_select_all_def
  from_select_eq_single_def sent_or_null_def from_insert_select_single_def patch_def
  from_update_eq_select_single_def from_delete_eq_def hosted_get_status_def
  hosted_get_items_def hosted_post_item_def hosted_get_item_def hosted_put_item_def
  hosted_delete_item_def

lemmas example_defs =
  example_item_def other_item_def example_body_def path_1_def path_2_def path_7_def
  object_body_def

lemma await_simps:
  "await \<lparr>rows = db, pending = []\<rparr> = (None, \<lparr>rows = db, pending = []\<rparr>)"
  "await \<lparr>rows = db, pending = f # fs\<rparr> = (f, \<lparr>rows = db, pending = fs\<rparr>)"
  by (simp_all add: await_def)

lemma try_catch_simps:
  "try_catch (Inl e) c = Inr (c e)"
  "try_catch (Inr r) c = Inr r"
  by (simp_all add: try_catch_def)


lemma filter_absent:
  "\<forall>r \<in> set db. \<not> matches p r \<Longrightarrow> filter (matches p) db = []"
  by (induction db) auto

lemma filter_present:
  "r \<in> set db \<Longrightarrow> matches p r \<Longrightarrow> filter (matches p) db \<noteq> []"
  by (induction db) auto

lemma filter_unique:
  "distinct (map item_id db) \<Longrightarrow> r \<in> set db \<Longrightarrow> matches p r \<Longrightarrow>
     filter (matches p) db = [r]"
proof (induction db)
  case Nil
  then show ?case by simp
next
  case (Cons a db)
  show ?case
  proof (cases "a = r")
    case True
    with Cons.prems have "\<forall>x \<in> set db. \<not> matches p x"
      by (auto simp: matches_def)
    then have "filter (matches p) db = []"
      by (rule filter_absent)
    with True Cons.prems(3) show ?thesis by simp
  next
    case False
    with Cons.prems have r: "r \<in> set db" by simp
    have "\<not> matches p a"
    proof
      assume "matches p a"
      with Cons.prems(3) have "item_id a = item_id r"
        by (simp add: matches_def)
      with r have "item_id a \<in> item_id ` set db" by simp
      with Cons.prems(1) show False by simp
    qed
    with Cons r show ?thesis by simp
  qed
qed

lemma set_clause_scalar:
  "\<not> is_obj v \<Longrightarrow> set_clause col v = Some [(col, Literal (sql_param v))]"
  by (cases v) (simp_all add: set_clause_def is_obj_def)

lemma assign_name_description:
  "assign [(''name'', Literal a), (''description'', Literal b)] r =
     Some (r\<lparr>name := a, description := b\<rparr>)"
  by (simp add: set_column_def eval_expr_def)

lemma known_name_description:
  "known_columns [(''name'', Literal a), (''description'', Literal b)]"
  by (simp add: known_columns_def columns_def)

text \<open>The update statement when neither parameter is an object.\<close>

lemma query_update_scalar:
  assumes "\<not> is_obj n" and "\<not> is_obj d"
  shows "query_update n d p \<lparr>rows = db, pending = None # fs\<rparr> =
           (Resolved (length (filter (matches p) db)),
            \<lparr>rows = map (\<lambda>r. if matches p r
                             then r\<lparr>name := sql_param n, description := sql_param d\<rparr>
                             else r) db,
             pending = fs\<rparr>)"
  by (simp add: query_update_def await_simps set_clause_scalar [OF assms(1)]
      set_clause_scalar [OF assms(2)] known_name_description assign_name_description
      Let_def del: assign.simps)

subsection \<open>Identifiers that no stored Item has\<close>

lemma hosted_delete_item_status:
  "fst (hosted_delete_item p s) = Inr (res_send 204) \<or>
   fst (hosted_delete_item p s) = Inr internal_server_error"
  by (simp add: hosted_delete_item_def from_delete_eq_def failed_def try_catch_def
      split: prod.splits option.splits)

lemma sql_absent_id_404:
  assumes "\<forall>r \<in> set db. \<not> matches p r"
  shows "sql_get_item p \<lparr>rows = db, pending = None # fs\<rparr> =
           (Inr item_not_found, \<lparr>rows = db, pending = fs\<rparr>)"
    and "\<not> is_obj (get_prop b ''name'') \<Longrightarrow> \<not> is_obj (get_prop b ''description'') \<Longrightarrow>
         sql_put_item p b \<lparr>rows = db, pending = None # fs\<rparr> =
           (Inr item_not_found, \<lparr>rows = db, pending = fs\<rparr>)"
    and "sql_delete_item p \<lparr>rows = db, pending = None # fs\<rparr> =
           (Inr item_not_found, \<lparr>rows = db, pending = fs\<rparr>)"
proof -
  from assms have none: "filter (matches p) db = []"
    by (rule filter_absent)
  from assms have same: "map (\<lambda>r. if matches p r then f r else r) db = db"
    "filter (\<lambda>r. \<not> matches p r) db = db" for f
    by (simp_all add: map_idI)
  show "sql_get_item p \<lparr>rows = db, pending = None # fs\<rparr> =
           (Inr item_not_found, \<lparr>rows = db, pending = fs\<rparr>)"
    by (simp add: sql_get_item_def query_select_by_id_def await_simps none try_catch_simps)
  show "sql_delete_item p \<lparr>rows = db, pending = None # fs\<rparr> =
           (Inr item_not_found, \<lparr>rows = db, pending = fs\<rparr>)"
    by (simp add: sql_delete_item_def query_delete_def await_simps none same try_catch_simps)
  show "sql_put_item p b \<lparr>rows = db, pending = None # fs\<rparr> =
           (Inr item_not_found, \<lparr>rows = db, pending = fs\<rparr>)"
    if "\<not> is_obj (get_prop b ''name'')" and "\<not> is_obj (get_prop b ''description'')"
    using that
    by (simp add: sql_put_item_def query_update_scalar await_simps none same try_catch_simps
        Let_def)
qed

text \<open>
  C1 says that GET, PUT and DELETE on \<^verbatim>\<open>/api/items/:id\<close> answer 404 with
  \<^verbatim>\<open>{error: "Item not found"}\<close> for an identifier that no stored Item has. The pooled SQL
  server does so (\<open>sql_absent_id_404\<close> above). The hosted-client server does not. Its
  DELETE handler has no branch for a missing row: it answers 204 whenever the client reports
  no error. Its GET and PUT handlers test \<^verbatim>\<open>!data\<close> only after
  \<^verbatim>\<open>if (error) throw error\<close>, and \<^verbatim>\<open>.single()\<close> reports a missing row as an error, so
  they answer 500. The theorem evaluates the three handlers on a table that holds one Item,
  with identifier 1, for the path \<^verbatim>\<open>/api/items/7\<close>.
\<close>

theorem hosted_absent_id_not_404:
  "hosted_delete_item path_7 \<lparr>rows = [example_item], pending = [None]\<rparr> =
     (Inr \<lparr>status = 204, body = NoBody\<rparr>, \<lparr>rows = [example_item], pending = []\<rparr>) \<and>
   fst (hosted_get_item path_7 \<lparr>rows = [example_item], pending = [None]\<rparr>) =
     Inr \<lparr>status = 500, body = Json [(''error'', Str ''Internal server error'')]\<rparr> \<and>
   fst (hosted_put_item path_7 [(''name'', Str ''N''), (''description'', Str ''D'')]
          \<lparr>rows = [example_item], pending = [None]\<rparr>) =
     Inr \<lparr>status = 500, body = Json [(''error'', Str ''Internal server error'')]\<rparr>"
  by (simp add: hosted_defs response_defs example_defs get_prop_def await_simps
      try_catch_simps matches_def Let_def)

subsection \<open>Updating an Item\<close>

lemma get_prop_stringify_absent:
  "k \<notin> fst ` set ob \<Longrightarrow> get_prop (stringify ob) k = Undefined"
  by (induction ob) (auto simp: get_prop_def stringify_def)

lemma get_prop_stringify:
  "distinct (map fst ob) \<Longrightarrow> get_prop (stringify ob) k = get_prop ob k"
proof (induction ob)
  case Nil
  then show ?case by (simp add: stringify_def)
next
  case (Cons q ob)
  obtain k' v where q: "q = (k', v)" by (cases q)
  show ?case
  proof (cases "k' = k")
    case True
    with Cons.prems q have "k \<notin> fst ` set ob" by auto
    then have "get_prop (stringify ob) k = Undefined"
      by (rule get_prop_stringify_absent)
    with True q show ?thesis
      by (simp add: get_prop_def stringify_def)
  next
    case False
    with Cons q show ?thesis
      by (simp add: get_prop_def stringify_def)
  qed
qed

lemma distinct_item_json: "distinct (map fst (item_json r))"
  by (simp add: item_json_def)

lemma body_field_item_json:
  "body_field (Json (stringify (item_json r))) ''id'' = Num (item_id r)"
  "body_field (Json (stringify (item_json r))) ''location'' = location r"
  "body_field (Json (stringify (item_json r))) ''contacts'' = contacts r"
  "body_field (Json (stringify (item_json r))) ''image'' = item_image r"
  "body_field (Json (stringify (item_json r))) ''call_logs'' = call_logs r"
  "body_field (Json (stringify (item_json r))) ''sms'' = sms r"
  "body_field (Json (stringify (item_json r))) ''name'' = name r"
  "body_field (Json (stringify (item_json r))) ''description'' = description r"
  by (simp_all add: body_field_def get_prop_stringify [OF distinct_item_json])
    (simp_all add: get_prop_def item_json_def)

text \<open>The update of the hosted client when exactly one row matches and a column is sent.\<close>

lemma from_update_one:
  assumes "distinct (map item_id db)" and "r \<in> set db" and "matches p r"
    and "stringify payload \<noteq> []"
  shows "from_update_eq_select_single payload p \<lparr>rows = db, pending = None # fs\<rparr> =
           (succeeded (patch (stringify payload) r),
            \<lparr>rows = map (\<lambda>x. if matches p x then patch (stringify payload) x else x) db,
             pending = fs\<rparr>)"
proof -
  from assms(1-3) have one: "filter (matches p) db = [r]"
    by (rule filter_unique)
  from assms(3) obtain i where "reads_as p = Some i"
    by (simp add: matches_def)
  with assms(4) show ?thesis
    by (simp add: from_update_eq_select_single_def await_simps Let_def one single_def)
qed

lemma hosted_update_one:
  assumes "distinct (map item_id db)" and "r \<in> set db" and "matches p r"
    and "get_prop b ''name'' = Str n" and "get_prop b ''description'' = Str d"
  shows "fst (hosted_put_item p b \<lparr>rows = db, pending = None # fs\<rparr>) =
           Inr (res_json 200 (item_json (r\<lparr>name := Str n, description := Str d\<rparr>)))"
proof -
  let ?payload = "[(''name'', Str n), (''description'', Str d)]"
  have sent: "stringify ?payload = ?payload"
    by (simp add: stringify_def)
  then have "stringify ?payload \<noteq> []" by simp
  with assms(1-3)
  have "from_update_eq_select_single ?payload p \<lparr>rows = db, pending = None # fs\<rparr> =
          (succeeded (patch (stringify ?payload) r),
           \<lparr>rows = map (\<lambda>x. if matches p x then patch (stringify ?payload) x else x) db,
            pending = fs\<rparr>)"
    by (rule from_update_one)
  moreover have "patch (stringify ?payload) r = r\<lparr>name := Str n, description := Str d\<rparr>"
    by (simp add: sent patch_def)
  ultimately show ?thesis
    by (simp add: hosted_put_item_def Let_def assms(4,5) succeeded_def try_catch_simps)
qed

lemma sql_update_present:
  assumes "r \<in> set db" and "matches p r"
    and "get_prop b ''name'' = Str n" and "get_prop b ''description'' = Str d"
  shows "fst (sql_put_item p b \<lparr>rows = db, pending = None # fs\<rparr>) =
           Inr (res_json 200 [(''id'', Str (path_text p)), (''name'', Str n),
                              (''description'', Str d)])"
proof -
  from assms(1,2) have "filter (matches p) db \<noteq> []"
    by (rule filter_present)
  moreover have "\<not> is_obj (Str n)" "\<not> is_obj (Str d)"
    by (simp_all add: is_obj_def)
  ultimately show ?thesis
    by (simp add: sql_put_item_def query_update_scalar Let_def assms(3,4) try_catch_simps)
qed

text \<open>
  C3, as amended. Let the identifiers of the table be unique, let the path parameter match
  the stored Item \<open>r\<close>, let the request body carry the strings \<open>n\<close> and \<open>d\<close> as
  \<^verbatim>\<open>name\<close> and \<^verbatim>\<open>description\<close>, and let the database answer. Then PUT answers 200. In
  the pooled SQL server the body has exactly the three fields \<^verbatim>\<open>id\<close>, \<^verbatim>\<open>name\<close> and
  \<^verbatim>\<open>description\<close>, with the text of the path parameter as \<^verbatim>\<open>id\<close>. In the hosted-client
  server the body is the whole row after the update: it has the identifier of the row as
  \<^verbatim>\<open>id\<close>, \<open>n\<close> and \<open>d\<close> as \<^verbatim>\<open>name\<close> and \<^verbatim>\<open>description\<close>, and the other stored fields
  as well.
\<close>

theorem put_existing_item_response:
  assumes "distinct (map item_id db)" and "r \<in> set db" and "matches p r"
    and "get_prop b ''name'' = Str n" and "get_prop b ''description'' = Str d"
  shows "fst (sql_put_item p b \<lparr>rows = db, pending = None # fs\<rparr>) =
           Inr \<lparr>status = 200,
                body = Json [(''id'', Str (path_text p)), (''name'', Str n),
                             (''description'', Str d)]\<rparr> \<and>
         fst (hosted_put_item p b \<lparr>rows = db, pending = None # fs\<rparr>) =
           Inr \<lparr>status = 200,
                body = Json (stringify
                  (item_json (r\<lparr>name := Str n, description := Str d\<rparr>)))\<rparr> \<and>
         body_field (Json (stringify (item_json (r\<lparr>name := Str n, description := Str d\<rparr>))))
           ''id'' = Num (item_id r) \<and>
         body_field (Json (stringify (item_json (r\<lparr>name := Str n, description := Str d\<rparr>))))
           ''name'' = Str n \<and>
         body_field (Json (stringify (item_json (r\<lparr>name := Str n, description := Str d\<rparr>))))
           ''description'' = Str d"
proof -
  have "fst (sql_put_item p b \<lparr>rows = db, pending = None # fs\<rparr>) =
          Inr (res_json 200 [(''id'', Str (path_text p)), (''name'', Str n),
                             (''description'', Str d)])"
    using assms(2-5) by (rule sql_update_present)
  moreover have "fst (hosted_put_item p b \<lparr>rows = db, pending = None # fs\<rparr>) =
          Inr (res_json 200 (item_json (r\<lparr>name := Str n, description := Str d\<rparr>)))"
    using assms by (rule hosted_update_one)
  ultimately show ?thesis
    by (simp add: res_json_def body_field_item_json) (simp add: stringify_def)
qed

theorem put_existing_item_response_witness:
  "fst (sql_put_item path_1 [(''name'', Str ''N''), (''description'', Str ''D'')]
          \<lparr>rows = [example_item, other_item], pending = [None]\<rparr>) =
     Inr \<lparr>status = 200,
          body = Json [(''id'', Str ''1''), (''name'', Str ''N''),
                       (''description'', Str ''D'')]\<rparr> \<and>
   fst (hosted_put_item path_1 [(''name'', Str ''N''), (''description'', Str ''D'')]
          \<lparr>rows = [example_item, other_item], pending = [None]\<rparr>) =
     Inr \<lparr>status = 200,
          body = Json [(''id'', Num 1), (''location'', Str ''L''), (''contacts'', Str ''C''),
                       (''image'', Str ''I''), (''call_logs'', Str ''CL''), (''sms'', Str ''S''),
                       (''name'', Str ''N''), (''description'', Str ''D'')]\<rparr>"
proof -
  have "distinct (map item_id [example_item, other_item])"
    and "example_item \<in> set [example_item, other_item]"
    and "matches path_1 example_item"
    and "get_prop [(''name'', Str ''N''), (''description'', Str ''D'')] ''name'' = Str ''N''"
    and "get_prop [(''name'', Str ''N''), (''description'', Str ''D'')] ''description'' =
           Str ''D''"
    by (simp_all add: get_prop_def example_defs matches_def)
  from put_existing_item_response [OF this, of "[]"] show ?thesis
    by (simp add: example_defs item_json_def stringify_def)
qed

text \<open>
  The claim as first stated, with a body of exactly three fields, fails in the hosted-client
  server on a table that holds the one Item \<open>example_item\<close>, whether the \<^verbatim>\<open>id\<close> of the
  body is taken as the number or as the text of the path.
\<close>

theorem hosted_put_body_counterexample:
  "fst (hosted_put_item path_1 [(''name'', Str ''N''), (''description'', Str ''D'')]
          \<lparr>rows = [example_item], pending = [None]\<rparr>) \<noteq>
     Inr \<lparr>status = 200,
          body = Json [(''id'', Num 1), (''name'', Str ''N''),
                       (''description'', Str ''D'')]\<rparr> \<and>
   fst (hosted_put_item path_1 [(''name'', Str ''N''), (''description'', Str ''D'')]
          \<lparr>rows = [example_item], pending = [None]\<rparr>) \<noteq>
     Inr \<lparr>status = 200,
          body = Json [(''id'', Str ''1''), (''name'', Str ''N''),
                       (''description'', Str ''D'')]\<rparr>"
  by (simp add: hosted_defs response_defs example_defs get_prop_def item_json_def Let_def
      await_simps try_catch_simps matches_def)

lemma rows_await: "rows (snd (await s)) = rows s"
  by (simp add: await_def split: list.splits)

lemma frame_refl: "frame p r r"
  by (simp add: frame_def)

lemma patch_others:
  "patch sent r = r\<lparr>name := name (patch sent r), description := description (patch sent r)\<rparr>"
  by (simp add: patch_def)

lemma list_all2_frame_same: "list_all2 (frame p) db db"
  by (simp add: list_all2_same frame_refl)

lemma list_all2_frame_map:
  assumes "\<And>r. f r = r\<lparr>name := name (f r), description := description (f r)\<rparr>"
  shows "list_all2 (frame p) db (map (\<lambda>r. if matches p r then f r else r) db)"
proof -
  have "frame p r (if matches p r then f r else r)" for r
    using assms [of r] by (simp add: frame_def)
  then show ?thesis
    by (simp add: list_all2_map2 list_all2_same)
qed

lemma hosted_put_item_rows:
  "rows (snd (hosted_put_item p b s)) = rows s \<or>
   rows (snd (hosted_put_item p b s)) =
     map (\<lambda>r. if matches p r
              then patch (stringify [(''name'', get_prop b ''name''),
                                     (''description'', get_prop b ''description'')]) r
              else r) (rows s)"
proof (cases "await s")
  case (Pair f s')
  then have "rows s' = rows s"
    using rows_await [of s] by simp
  with Pair show ?thesis
    by (cases f)
      (simp_all add: hosted_put_item_def from_update_eq_select_single_def Let_def)
qed

text \<open>
  The hosted-client server keeps the frame for every request body, path parameter and
  outcome of the call.
\<close>

lemma hosted_put_item_frame:
  "list_all2 (frame p) (rows s) (rows (snd (hosted_put_item p b s)))"
  using hosted_put_item_rows [of p b s] list_all2_frame_same [of p "rows s"]
    list_all2_frame_map [where p = p and db = "rows s"
      and f = "patch (stringify [(''name'', get_prop b ''name''),
                                 (''description'', get_prop b ''description'')])",
      OF patch_others]
  by (elim disjE) simp_all

lemma sql_put_item_rows_scalar:
  assumes "\<not> is_obj (get_prop b ''name'')" and "\<not> is_obj (get_prop b ''description'')"
  shows "rows (snd (sql_put_item p b \<lparr>rows = db, pending = None # fs\<rparr>)) =
           map (\<lambda>r. if matches p r
                    then r\<lparr>name := sql_param (get_prop b ''name''),
                           description := sql_param (get_prop b ''description'')\<rparr>
                    else r) db"
  by (simp add: sql_put_item_def Let_def query_update_scalar [OF assms])

text \<open>
  The pooled SQL server keeps the frame when each of \<^verbatim>\<open>name\<close> and \<^verbatim>\<open>description\<close> of
  the request body is absent, \<^verbatim>\<open>null\<close>, a string or a number.
\<close>

lemma sql_put_item_frame_scalar:
  assumes "\<not> is_obj (get_prop b ''name'')" and "\<not> is_obj (get_prop b ''description'')"
  shows "list_all2 (frame p) db
           (rows (snd (sql_put_item p b \<lparr>rows = db, pending = None # fs\<rparr>)))"
proof -
  have "list_all2 (frame p) db
               (map (\<lambda>r. if matches p r
                         then r\<lparr>name := sql_param (get_prop b ''name''),
                                description := sql_param (get_prop b ''description'')\<rparr>
                         else r) db)"
    by (rule list_all2_frame_map) simp
  then show ?thesis
    by (simp add: sql_put_item_rows_scalar [OF assms])
qed

text \<open>
  C4 says that a PUT leaves \<^verbatim>\<open>location\<close>, \<^verbatim>\<open>contacts\<close>, \<^verbatim>\<open>image\<close>, \<^verbatim>\<open>call_logs\<close> and
  \<^verbatim>\<open>sms\<close> of every stored Item as they are. The hosted-client server does so for every
  request (\<open>hosted_put_item_frame\<close> above), and the pooled SQL server does so when each
  of \<^verbatim>\<open>name\<close> and \<^verbatim>\<open>description\<close> of the request body is absent, \<^verbatim>\<open>null\<close>, a string
  or a number (\<open>sql_put_item_frame_scalar\<close> above). The pooled SQL server hands the values of the
  request body to the query unchecked, and its client writes an object into the statement
  as a list of assignments. The theorem evaluates the PUT handler for the path
  \<^verbatim>\<open>/api/items/1\<close> and the body
  \<^verbatim>\<open>{"name": {"name": "x", "location": "pwned"}, "description": "D"}\<close> on a table that
  holds \<open>example_item\<close>, whose location is \<^verbatim>\<open>"L"\<close>: the handler answers 200 and the stored
  location is \<^verbatim>\<open>"pwned"\<close>.
\<close>

theorem sql_put_item_object_writes_location:
  "location example_item = Str ''L'' \<and>
   sql_put_item path_1 object_body \<lparr>rows = [example_item, other_item], pending = [None]\<rparr> =
     (Inr \<lparr>status = 200,
           body = Json [(''id'', Str ''1''),
                        (''name'', Obj [(''name'', Str ''x''), (''location'', Str ''pwned'')]),
                        (''description'', Str ''D'')]\<rparr>,
      \<lparr>rows = [example_item\<lparr>location := Str ''pwned'', name := Num 0,
                              description := Str ''D''\<rparr>, other_item],
       pending = []\<rparr>)"
  by (simp add: sql_put_item_def query_update_def await_simps try_catch_simps Let_def
      set_clause_def known_columns_def columns_def set_column_def eval_expr_def column_def
      sql_equal_def nested_param_def sql_param_def is_obj_def matches_def get_prop_def
      item_json_def response_defs example_defs)

lemma patch_sent:
  "patch (stringify [(''name'', n), (''description'', d)]) r =
     r\<lparr>name := (if n = Undefined then name r else n),
       description := (if d = Undefined then description r else d)\<rparr>"
  by (simp add: patch_def stringify_def)

lemma hosted_put_item_rows_one:
  assumes "distinct (map item_id db)" and "r \<in> set db" and "matches p r"
    and "get_prop b ''name'' \<noteq> Undefined \<or> get_prop b ''description'' \<noteq> Undefined"
  shows "rows (snd (hosted_put_item p b \<lparr>rows = db, pending = None # fs\<rparr>)) =
           map (\<lambda>x. if matches p x
                    then x\<lparr>name := (if get_prop b ''name'' = Undefined then name x
                                     else get_prop b ''name''),
                           description := (if get_prop b ''description'' = Undefined
                                           then description x
                                           else get_prop b ''description'')\<rparr>
                    else x) db"
proof -
  let ?payload = "[(''name'', get_prop b ''name''), (''description'', get_prop b ''description'')]"
  from assms(4) have "stringify ?payload \<noteq> []"
    by (auto simp: stringify_def)
  with assms(1-3)
  have "from_update_eq_select_single ?payload p \<lparr>rows = db, pending = None # fs\<rparr> =
          (succeeded (patch (stringify ?payload) r),
           \<lparr>rows = map (\<lambda>x. if matches p x then patch (stringify ?payload) x else x) db,
            pending = fs\<rparr>)"
    by (rule from_update_one)
  then show ?thesis
    by (simp add: hosted_put_item_def Let_def patch_sent)
qed

lemma hosted_put_item_rows_none:
  assumes "get_prop b ''name'' = Undefined" and "get_prop b ''description'' = Undefined"
  shows "rows (snd (hosted_put_item p b s)) = rows s"
proof -
  have "patch (stringify [(''name'', get_prop b ''name''),
                          (''description'', get_prop b ''description'')]) r = r" for r
    by (simp add: patch_sent assms)
  then have "map (\<lambda>r. if matches p r
              then patch (stringify [(''name'', get_prop b ''name''),
                                     (''description'', get_prop b ''description'')]) r
              else r) (rows s) = rows s"
    by (simp add: map_idI)
  with hosted_put_item_rows [of p b s] show ?thesis
    by (elim disjE) simp_all
qed

text \<open>
  C10, as amended, for a PUT that the database answers. In the pooled SQL server, when
  each of \<^verbatim>\<open>name\<close> and \<^verbatim>\<open>description\<close> of the request body is absent, \<^verbatim>\<open>null\<close>, a
  string or a number (no object), every row the path parameter matches gets both columns
  written, a field the body omits (\<open>Undefined\<close>) as \<^verbatim>\<open>NULL\<close>, and the other rows stay. In the hosted-client server, when the identifiers
  are unique, the path parameter matches a stored Item and the body has at least one of the
  two fields, the matching row gets the fields the body has, and a field the body omits
  keeps its stored value; when the body has neither field, the table stays as it is.
\<close>

theorem put_item_omitted_fields:
  "(\<not> is_obj (get_prop b ''name'') \<and> \<not> is_obj (get_prop b ''description'') \<longrightarrow>
      rows (snd (sql_put_item p b \<lparr>rows = db, pending = None # fs\<rparr>)) =
        map (\<lambda>x. if matches p x
                 then x\<lparr>name := sql_param (get_prop b ''name''),
                        description := sql_param (get_prop b ''description'')\<rparr>
                 else x) db) \<and>
   sql_param Undefined = Null \<and>
   (distinct (map item_id db) \<and> r \<in> set db \<and> matches p r \<and>
    (get_prop b ''name'' \<noteq> Undefined \<or> get_prop b ''description'' \<noteq> Undefined) \<longrightarrow>
      rows (snd (hosted_put_item p b \<lparr>rows = db, pending = None # fs\<rparr>)) =
        map (\<lambda>x. if matches p x
                 then x\<lparr>name := (if get_prop b ''name'' = Undefined then name x
                                  else get_prop b ''name''),
                        description := (if get_prop b ''description'' = Undefined
                                        then description x
                                        else get_prop b ''description'')\<rparr>
                 else x) db) \<and>
   (get_prop b ''name'' = Undefined \<and> get_prop b ''description'' = Undefined \<longrightarrow>
      rows (snd (hosted_put_item p b \<lparr>rows = db, pending = None # fs\<rparr>)) = db)"
proof (intro conjI impI)
  assume "\<not> is_obj (get_prop b ''name'') \<and> \<not> is_obj (get_prop b ''description'')"
  then show "rows (snd (sql_put_item p b \<lparr>rows = db, pending = None # fs\<rparr>)) =
        map (\<lambda>x. if matches p x
                 then x\<lparr>name := sql_param (get_prop b ''name''),
                        description := sql_param (get_prop b ''description'')\<rparr>
                 else x) db"
    by (simp add: sql_put_item_rows_scalar)
next
  show "sql_param Undefined = Null"
    by (simp add: sql_param_def)
next
  assume "distinct (map item_id db) \<and> r \<in> set db \<and> matches p r \<and>
    (get_prop b ''name'' \<noteq> Undefined \<or> get_prop b ''description'' \<noteq> Undefined)"
  then show "rows (snd (hosted_put_item p b \<lparr>rows = db, pending = None # fs\<rparr>)) =
        map (\<lambda>x. if matches p x
                 then x\<lparr>name := (if get_prop b ''name'' = Undefined then name x
                                  else get_prop b ''name''),
                        description := (if get_prop b ''description'' = Undefined
                                        then description x
                                        else get_prop b ''description'')\<rparr>
                 else x) db"
    using hosted_put_item_rows_one [of db r p b fs] by blast
next
  assume "get_prop b ''name'' = Undefined \<and> get_prop b ''description'' = Undefined"
  then show "rows (snd (hosted_put_item p b \<lparr>rows = db, pending = None # fs\<rparr>)) = db"
    using hosted_put_item_rows_none [of b p "\<lparr>rows = db, pending = None # fs\<rparr>"] by simp
qed

theorem put_item_omitted_fields_witness:
  "rows (snd (sql_put_item path_1 [(''description'', Str ''D'')]
                \<lparr>rows = [example_item, other_item], pending = [None]\<rparr>)) =
     [example_item\<lparr>name := Null, description := Str ''D''\<rparr>, other_item] \<and>
   rows (snd (hosted_put_item path_1 [(''description'', Str ''D'')]
                \<lparr>rows = [example_item, other_item], pending = [None]\<rparr>)) =
     [example_item\<lparr>description := Str ''D''\<rparr>, other_item] \<and>
   rows (snd (hosted_put_item path_1 []
                \<lparr>rows = [example_item, other_item], pending = [None]\<rparr>)) =
     [example_item, other_item]"
proof -
  let ?b = "[(''description'', Str ''D'')]"
  let ?db = "[example_item, other_item]"
  note inst = put_item_omitted_fields [of ?b path_1 ?db "[]" example_item]
  note none = put_item_omitted_fields [of "[]" path_1 ?db "[]" example_item]
  have props: "get_prop ?b ''name'' = Undefined" "get_prop ?b ''description'' = Str ''D''"
    "get_prop [] ''name'' = Undefined" "get_prop [] ''description'' = Undefined"
    by (simp_all add: get_prop_def)
  have hyps: "distinct (map item_id ?db)" "example_item \<in> set ?db"
    "matches path_1 example_item" "\<not> matches path_1 other_item"
    by (simp_all add: example_defs matches_def)
  have upd: "example_item\<lparr>name := name example_item, description := Str ''D''\<rparr> =
             example_item\<lparr>description := Str ''D''\<rparr>"
    by simp
  from inst none props hyps upd show ?thesis
    by (simp add: is_obj_def sql_param_def)
qed

text \<open>
  The claim as first stated fails in the hosted-client server: a PUT whose body has no
  \<^verbatim>\<open>name\<close> leaves the stored name \<^verbatim>\<open>"old"\<close> of \<open>example_item\<close> in place and returns it.
\<close>

theorem hosted_put_omitted_name_counterexample:
  "name example_item = Str ''old'' \<and>
   hosted_put_item path_1 [(''description'', Str ''D'')]
     \<lparr>rows = [example_item], pending = [None]\<rparr> =
     (Inr \<lparr>status = 200,
           body = Json [(''id'', Num 1), (''location'', Str ''L''), (''contacts'', Str ''C''),
                        (''image'', Str ''I''), (''call_logs'', Str ''CL''),
                        (''sms'', Str ''S''), (''name'', Str ''old''),
                        (''description'', Str ''D'')]\<rparr>,
      \<lparr>rows = [example_item\<lparr>description := Str ''D''\<rparr>], pending = []\<rparr>) \<and>
   name (example_item\<lparr>description := Str ''D''\<rparr>) = Str ''old''"
  by (simp add: hosted_defs response_defs example_defs get_prop_def item_json_def Let_def
      await_simps try_catch_simps matches_def)

subsection \<open>Creating and deleting an Item\<close>

lemma insert_value_Str: "insert_value (Str x) = Some (Str x)"
  by (simp add: insert_value_def sql_param_def)

lemma sql_post_then_get:
  assumes "new_id \<notin> item_id ` set db" and "reads_as p = Some new_id"
    and "get_prop b ''location'' = Str l" and "get_prop b ''contacts'' = Str c"
    and "get_prop b ''image'' = Str i" and "get_prop b ''call_logs'' = Str cl"
    and "get_prop b ''sms'' = Str s"
  shows "sql_post_item new_id b \<lparr>rows = db, pending = None # fs\<rparr> =
           (Inr \<lparr>status = 201,
                 body = Json [(''id'', Num new_id), (''location'', Str l),
                              (''contacts'', Str c), (''image'', Str i),
                              (''call_logs'', Str cl), (''sms'', Str s)]\<rparr>,
            \<lparr>rows = db @ [\<lparr>item_id = new_id, location = Str l, contacts = Str c,
                             item_image = Str i, call_logs = Str cl, sms = Str s,
                             name = Null, description = Null\<rparr>],
             pending = fs\<rparr>)"
    and "fst (sql_get_item p
           \<lparr>rows = db @ [\<lparr>item_id = new_id, location = Str l, contacts = Str c,
                            item_image = Str i, call_logs = Str cl, sms = Str s,
                            name = Null, description = Null\<rparr>],
            pending = None # fs'\<rparr>) =
           Inr (res_json 200 (item_json
             \<lparr>item_id = new_id, location = Str l, contacts = Str c, item_image = Str i,
              call_logs = Str cl, sms = Str s, name = Null, description = Null\<rparr>))"
proof -
  show "sql_post_item new_id b \<lparr>rows = db, pending = None # fs\<rparr> =
           (Inr \<lparr>status = 201,
                 body = Json [(''id'', Num new_id), (''location'', Str l),
                              (''contacts'', Str c), (''image'', Str i),
                              (''call_logs'', Str cl), (''sms'', Str s)]\<rparr>,
            \<lparr>rows = db @ [\<lparr>item_id = new_id, location = Str l, contacts = Str c,
                             item_image = Str i, call_logs = Str cl, sms = Str s,
                             name = Null, description = Null\<rparr>],
             pending = fs\<rparr>)"
    by (simp add: sql_post_item_def query_insert_def Let_def assms(3-7) await_simps
        insert_value_Str try_catch_simps res_json_def stringify_def)
  from assms(1,2) have "\<forall>r \<in> set db. \<not> matches p r"
    by (auto simp: matches_def)
  then have none: "filter (matches p) db = []"
    by (rule filter_absent)
  from assms(2) show "fst (sql_get_item p
           \<lparr>rows = db @ [\<lparr>item_id = new_id, location = Str l, contacts = Str c,
                            item_image = Str i, call_logs = Str cl, sms = Str s,
                            name = Null, description = Null\<rparr>],
            pending = None # fs'\<rparr>) =
           Inr (res_json 200 (item_json
             \<lparr>item_id = new_id, location = Str l, contacts = Str c, item_image = Str i,
              call_logs = Str cl, sms = Str s, name = Null, description = Null\<rparr>))"
    by (simp add: sql_get_item_def query_select_by_id_def await_simps none matches_def
        try_catch_simps)
qed

lemma hosted_post_then_get:
  assumes "new_id \<notin> item_id ` set db" and "reads_as p = Some new_id"
    and "get_prop b ''location'' = Str l" and "get_prop b ''contacts'' = Str c"
    and "get_prop b ''image'' = Str i" and "get_prop b ''call_logs'' = Str cl"
    and "get_prop b ''sms'' = Str s"
  shows "hosted_post_item new_id b \<lparr>rows = db, pending = None # fs\<rparr> =
           (Inr (res_json 201 (item_json
              \<lparr>item_id = new_id, location = Str l, contacts = Str c, item_image = Str i,
               call_logs = Str cl, sms = Str s, name = Null, description = Null\<rparr>)),
            \<lparr>rows = db @ [\<lparr>item_id = new_id, location = Str l, contacts = Str c,
                             item_image = Str i, call_logs = Str cl, sms = Str s,
                             name = Null, description = Null\<rparr>],
             pending = fs\<rparr>)"
    and "fst (hosted_get_item p
           \<lparr>rows = db @ [\<lparr>item_id = new_id, location = Str l, contacts = Str c,
                            item_image = Str i, call_logs = Str cl, sms = Str s,
                            name = Null, description = Null\<rparr>],
            pending = None # fs'\<rparr>) =
           Inr (res_json 200 (item_json
             \<lparr>item_id = new_id, location = Str l, contacts = Str c, item_image = Str i,
              call_logs = Str cl, sms = Str s, name = Null, description = Null\<rparr>))"
proof -
  let ?r = "\<lparr>item_id = new_id, location = Str l, contacts = Str c, item_image = Str i,
             call_logs = Str cl, sms = Str s, name = Null, description = Null\<rparr>"
  have ins: "from_insert_select_single new_id
               [(''location'', Str l), (''contacts'', Str c), (''image'', Str i),
                (''call_logs'', Str cl), (''sms'', Str s)]
               \<lparr>rows = db, pending = None # fs\<rparr> =
             (succeeded ?r, \<lparr>rows = db @ [?r], pending = fs\<rparr>)"
    by (simp add: from_insert_select_single_def await_simps Let_def stringify_def
        sent_or_null_def single_def)
  show "hosted_post_item new_id b \<lparr>rows = db, pending = None # fs\<rparr> =
          (Inr (res_json 201 (item_json ?r)), \<lparr>rows = db @ [?r], pending = fs\<rparr>)"
    by (simp add: hosted_post_item_def Let_def assms(3-7) ins succeeded_def try_catch_simps)
  from assms(1,2) have "\<forall>r \<in> set db. \<not> matches p r"
    by (auto simp: matches_def)
  then have none: "filter (matches p) db = []"
    by (rule filter_absent)
  from assms(2) show "fst (hosted_get_item p \<lparr>rows = db @ [?r], pending = None # fs'\<rparr>) =
          Inr (res_json 200 (item_json ?r))"
    by (simp add: hosted_get_item_def from_select_eq_single_def await_simps none single_def
        succeeded_def matches_def try_catch_simps)
qed

lemma response_item_json:
  "status (res_json c (item_json r)) = c"
  "body_field (body (res_json c (item_json r))) ''id'' = Num (item_id r)"
  "five_fields (body (res_json c (item_json r))) =
     (location r, contacts r, item_image r, call_logs r, sms r)"
  by (simp_all add: res_json_def five_fields_def body_field_item_json)

text \<open>
  C5. Let the request body carry the strings \<open>l\<close>, \<open>c\<close>, \<open>i\<close>, \<open>cl\<close> and \<open>s\<close> as
  \<^verbatim>\<open>location\<close>, \<^verbatim>\<open>contacts\<close>, \<^verbatim>\<open>image\<close>, \<^verbatim>\<open>call_logs\<close> and \<^verbatim>\<open>sms\<close>, let the database
  answer both requests, and let the identifier it generates be one that no stored Item has.
  Then POST answers 201 with a body that has this identifier as \<^verbatim>\<open>id\<close> and the five
  values, and a GET whose path parameter the database reads as this identifier, made on the
  database as the POST left it, answers 200 with the same identifier and the same five
  values. This holds in both servers.
\<close>

theorem post_then_get_item:
  assumes "new_id \<notin> item_id ` set db" and "reads_as p = Some new_id"
    and "get_prop b ''location'' = Str l" and "get_prop b ''contacts'' = Str c"
    and "get_prop b ''image'' = Str i" and "get_prop b ''call_logs'' = Str cl"
    and "get_prop b ''sms'' = Str s"
  shows "(\<exists>created got.
            fst (sql_post_item new_id b \<lparr>rows = db, pending = None # None # fs\<rparr>) =
              Inr created \<and>
            status created = 201 \<and>
            body_field (body created) ''id'' = Num new_id \<and>
            five_fields (body created) = (Str l, Str c, Str i, Str cl, Str s) \<and>
            fst (sql_get_item p
                  (snd (sql_post_item new_id b \<lparr>rows = db, pending = None # None # fs\<rparr>))) =
              Inr got \<and>
            status got = 200 \<and>
            body_field (body got) ''id'' = Num new_id \<and>
            five_fields (body got) = (Str l, Str c, Str i, Str cl, Str s)) \<and>
         (\<exists>created got.
            fst (hosted_post_item new_id b \<lparr>rows = db, pending = None # None # fs\<rparr>) =
              Inr created \<and>
            status created = 201 \<and>
            body_field (body created) ''id'' = Num new_id \<and>
            five_fields (body created) = (Str l, Str c, Str i, Str cl, Str s) \<and>
            fst (hosted_get_item p
                  (snd (hosted_post_item new_id b
                          \<lparr>rows = db, pending = None # None # fs\<rparr>))) =
              Inr got \<and>
            status got = 200 \<and>
            body_field (body got) ''id'' = Num new_id \<and>
            five_fields (body got) = (Str l, Str c, Str i, Str cl, Str s))"
proof -
  have "five_fields (Json [(''id'', Num new_id), (''location'', Str l), (''contacts'', Str c),
          (''image'', Str i), (''call_logs'', Str cl), (''sms'', Str s)]) =
        (Str l, Str c, Str i, Str cl, Str s)"
    and "body_field (Json [(''id'', Num new_id), (''location'', Str l), (''contacts'', Str c),
          (''image'', Str i), (''call_logs'', Str cl), (''sms'', Str s)]) ''id'' = Num new_id"
    by (simp_all add: five_fields_def body_field_def get_prop_def)
  then show ?thesis
    by (simp add: sql_post_then_get [OF assms] hosted_post_then_get [OF assms]
        response_item_json)
qed

theorem post_then_get_item_witness:
  "(2::int) \<notin> item_id ` set [example_item] \<and>
   reads_as path_2 = Some 2 \<and>
   fst (sql_post_item 2 example_body \<lparr>rows = [example_item], pending = [None, None]\<rparr>) =
     Inr \<lparr>status = 201,
          body = Json [(''id'', Num 2), (''location'', Str ''L''), (''contacts'', Str ''C''),
                       (''image'', Str ''I''), (''call_logs'', Str ''CL''),
                       (''sms'', Str ''S'')]\<rparr> \<and>
   (\<exists>got.
      fst (sql_get_item path_2
            (snd (sql_post_item 2 example_body
                    \<lparr>rows = [example_item], pending = [None, None]\<rparr>))) = Inr got \<and>
      status got = 200 \<and>
      five_fields (body got) = (Str ''L'', Str ''C'', Str ''I'', Str ''CL'', Str ''S'')) \<and>
   (\<exists>created got.
      fst (hosted_post_item 2 example_body
            \<lparr>rows = [example_item], pending = [None, None]\<rparr>) = Inr created \<and>
      status created = 201 \<and>
      fst (hosted_get_item path_2
            (snd (hosted_post_item 2 example_body
                    \<lparr>rows = [example_item], pending = [None, None]\<rparr>))) = Inr got \<and>
      status got = 200 \<and>
      five_fields (body got) = (Str ''L'', Str ''C'', Str ''I'', Str ''CL'', Str ''S''))"
proof -
  have hyps: "(2::int) \<notin> item_id ` set [example_item]" "reads_as path_2 = Some 2"
    "get_prop example_body ''location'' = Str ''L''"
    "get_prop example_body ''contacts'' = Str ''C''"
    "get_prop example_body ''image'' = Str ''I''"
    "get_prop example_body ''call_logs'' = Str ''CL''"
    "get_prop example_body ''sms'' = Str ''S''"
    by (simp_all add: get_prop_def example_defs)
  have post: "fst (sql_post_item 2 example_body
                \<lparr>rows = [example_item], pending = [None, None]\<rparr>) =
     Inr \<lparr>status = 201,
          body = Json [(''id'', Num 2), (''location'', Str ''L''), (''contacts'', Str ''C''),
                       (''image'', Str ''I''), (''call_logs'', Str ''CL''),
                       (''sms'', Str ''S'')]\<rparr>"
    by (simp add: sql_post_then_get(1) [OF hyps])
  from post_then_get_item [OF hyps, of "[]"] hyps(1,2) post show ?thesis
    by blast
qed

lemma sql_delete_then_get:
  assumes "r \<in> set db" and "matches p r"
  shows "sql_delete_item p \<lparr>rows = db, pending = None # fs\<rparr> =
           (Inr \<lparr>status = 204, body = NoBody\<rparr>,
            \<lparr>rows = filter (\<lambda>x. \<not> matches p x) db, pending = fs\<rparr>)"
    and "fst (sql_get_item p
           \<lparr>rows = filter (\<lambda>x. \<not> matches p x) db, pending = None # fs'\<rparr>) =
           Inr item_not_found"
proof -
  from assms have "filter (matches p) db \<noteq> []"
    by (rule filter_present)
  then show "sql_delete_item p \<lparr>rows = db, pending = None # fs\<rparr> =
           (Inr \<lparr>status = 204, body = NoBody\<rparr>,
            \<lparr>rows = filter (\<lambda>x. \<not> matches p x) db, pending = fs\<rparr>)"
    by (simp add: sql_delete_item_def query_delete_def await_simps res_send_def
        try_catch_simps)
  show "fst (sql_get_item p
           \<lparr>rows = filter (\<lambda>x. \<not> matches p x) db, pending = None # fs'\<rparr>) =
           Inr item_not_found"
    by (simp add: sql_get_item_def query_select_by_id_def await_simps try_catch_simps)
qed

text \<open>
  C6 says that DELETE on the identifier of a stored Item answers 204 with an empty body and
  that a GET with the same identifier then answers 404. The pooled SQL server does so
  (\<open>sql_delete_then_get\<close> above). In the hosted-client server the DELETE answers 204 with an
  empty body, and the GET that follows answers 500: the row is gone, \<^verbatim>\<open>.single()\<close> reports
  that as an error, and \<^verbatim>\<open>if (error) throw error\<close> comes before the test \<^verbatim>\<open>!data\<close>. The
  theorem evaluates both requests on a table that holds the one Item \<open>example_item\<close>.
\<close>

theorem hosted_delete_then_get_not_404:
  "hosted_delete_item path_1 \<lparr>rows = [example_item], pending = [None, None]\<rparr> =
     (Inr \<lparr>status = 204, body = NoBody\<rparr>, \<lparr>rows = [], pending = [None]\<rparr>) \<and>
   fst (hosted_get_item path_1 \<lparr>rows = [], pending = [None]\<rparr>) =
     Inr \<lparr>status = 500, body = Json [(''error'', Str ''Internal server error'')]\<rparr>"
  by (simp add: hosted_defs response_defs example_defs await_simps try_catch_simps
      matches_def)

subsection \<open>The status route and failures of the data layer\<close>









end
